theory Spec2Isabelle
  imports Complex_Main
begin

section \<open>Data model of the teleoperation node\<close>

text \<open>
  The embedding follows \<^verbatim>\<open>dobot_teleop/teleop.py\<close>, class \<^verbatim>\<open>ArTeleopPlannerReal\<close>.
  Python floats are read as real numbers. A pose message carries a position (x, y, z)
  and an orientation quaternion (x, y, z, w).
\<close>

type_synonym vec3 = "real \<times> real \<times> real"
type_synonym quat = "real \<times> real \<times> real \<times> real"

record pose =
  position :: vec3
  orientation :: quat

text \<open>The exceptions a callback can raise on an attribute that was never assigned
  (\<^verbatim>\<open>AttributeError\<close>) or on subscripting \<^verbatim>\<open>None\<close> (\<^verbatim>\<open>TypeError\<close>).\<close>

datatype py_error = AttributeError | TypeError

datatype timer_callback = Async_clear_error | Async_enable_robot

text \<open>Everything a callback hands to the outside world, in program order: service
  calls, the recorder message, timers, log lines, sleeps, the HTTP request of the
  gripper, and the start of the thread that runs \<^verbatim>\<open>_send_gripper_command\<close> with the
  given action.\<close>

datatype effect =
    ServoP_call real real real real real real
  | Publish_target "real list"
  | GetPose_call
  | ClearError_call
  | EnableRobot_call
  | Create_timer real timer_callback
  | Log_info string
  | Log_error
  | Sleep real
  | Http_post "nat list"
  | Start_thread string

text \<open>
  The attributes of the node. \<^verbatim>\<open>LIMITS\<close> is a dictionary with the three keys
  \<^verbatim>\<open>'x'\<close>, \<^verbatim>\<open>'y'\<close>, \<^verbatim>\<open>'z'\<close>, each a pair (min, max): one field per key.
  \<^verbatim>\<open>initial_robot_pose\<close> is \<^verbatim>\<open>None\<close> or a dictionary of x, y, z.
  The attributes \<^verbatim>\<open>last_cmd_time\<close>, \<^verbatim>\<open>initial_robot_euler\<close> and
  \<^verbatim>\<open>initial_phone_euler\<close> are not assigned by \<^verbatim>\<open>__init__\<close>: \<open>None\<close> stands for
  an attribute that does not exist yet.
\<close>

record node =
  LIMITS_x :: "real \<times> real"
  LIMITS_y :: "real \<times> real"
  LIMITS_z :: "real \<times> real"
  MAX_JUMP_THRESHOLD :: real
  MIN_MOVE_THRESHOLD :: real
  CMD_INTERVAL :: real
  teleop_locked :: bool
  last_sent_coords :: "vec3 option"
  current_gripper_val :: real
  robot_enabled :: bool
  initialized :: bool
  robot_pose_initialized :: bool
  getting_initial_pose_flag :: bool
  initial_robot_pose :: "vec3 option"
  initial_phone_pose :: "pose option"
  position_scale :: real
  rotation_scale :: real
  last_cmd_time :: "real option"
  initial_robot_euler :: "vec3 option"
  initial_phone_euler :: "vec3 option"

text \<open>The state \<^verbatim>\<open>__init__\<close> leaves behind (lines 19 to 56); its last statement
  starts the handshake with \<^verbatim>\<open>async_clear_error\<close>.\<close>

definition init_node :: node where
  "init_node =
    \<lparr> LIMITS_x = (-800, 0), LIMITS_y = (-500, 500), LIMITS_z = (155, 750),
      MAX_JUMP_THRESHOLD = 40, MIN_MOVE_THRESHOLD = 2, CMD_INTERVAL = 33 / 1000,
      teleop_locked = False, last_sent_coords = None, current_gripper_val = 1,
      robot_enabled = False, initialized = False, robot_pose_initialized = False,
      getting_initial_pose_flag = False, initial_robot_pose = None,
      initial_phone_pose = None, position_scale = 900,
      rotation_scale = 180 / (314159265359 / 100000000000),
      last_cmd_time = None, initial_robot_euler = None, initial_phone_euler = None \<rparr>"

section \<open>Connection handshake callbacks\<close>

definition async_clear_error :: "effect list" where
  "async_clear_error = [ClearError_call]"

definition async_enable_robot :: "effect list" where
  "async_enable_robot = [EnableRobot_call]"

definition clear_cb :: "int \<Rightarrow> node \<Rightarrow> node \<times> effect list" where
  "clear_cb res s =
    (if res = 0 then (s, async_enable_robot)
     else (s, [Create_timer 1 Async_clear_error]))"

definition enable_cb :: "int \<Rightarrow> node \<Rightarrow> node \<times> effect list" where
  "enable_cb res s =
    (if res = 0 then (s\<lparr>robot_enabled := True\<rparr>, [Log_info ''Robot Enabled.''])
     else (s, [Create_timer 1 Async_enable_robot]))"

section \<open>The teleoperation loop\<close>

text \<open>\<^verbatim>\<open>handle_init\<close> (lines 166 to 175). The Euler conversion
  \<^verbatim>\<open>euler_from_quaternion\<close> belongs to the library \<^verbatim>\<open>tf_transformations\<close>; it is the
  parameter \<open>efq\<close> of every function that calls it.\<close>

definition handle_init :: "(quat \<Rightarrow> vec3) \<Rightarrow> pose \<Rightarrow> node \<Rightarrow> node \<times> effect list" where
  "handle_init efq phone_pose s =
    (if \<not> robot_pose_initialized s then
       (if \<not> getting_initial_pose_flag s
        then (s\<lparr>getting_initial_pose_flag := True\<rparr>, [GetPose_call])
        else (s, []))
     else
       (s\<lparr>initial_phone_pose := Some phone_pose,
          initial_phone_euler := Some (efq (orientation phone_pose)),
          initialized := True\<rparr>,
        [Log_info ''Teleop Initialized.'']))"

text \<open>Lines 126 to 132: the scaled sensor delta and the candidate position.\<close>

definition sensor_delta :: "real \<Rightarrow> vec3 \<Rightarrow> vec3 \<Rightarrow> vec3" where
  "sensor_delta scale p p0 =
    (case p of (x, y, z) \<Rightarrow> case p0 of (x0, y0, z0) \<Rightarrow>
       ((x - x0) * scale, (y - y0) * scale, (z - z0) * scale))"

definition target_position :: "vec3 \<Rightarrow> vec3 \<Rightarrow> vec3" where
  "target_position irp d =
    (case irp of (bx, by, bz) \<Rightarrow> case d of (dx, dy, dz) \<Rightarrow>
       (bx - dz, by - dx, bz + dy))"

text \<open>Lines 134 to 136: \<^verbatim>\<open>max(lo, min(t, hi))\<close> on each position axis.\<close>

definition clamp_axis :: "real \<times> real \<Rightarrow> real \<Rightarrow> real" where
  "clamp_axis bounds t = max (fst bounds) (min t (snd bounds))"

definition clamp_position :: "node \<Rightarrow> vec3 \<Rightarrow> vec3" where
  "clamp_position s t =
    (case t of (tx, ty, tz) \<Rightarrow>
       (clamp_axis (LIMITS_x s) tx, clamp_axis (LIMITS_y s) ty, clamp_axis (LIMITS_z s) tz))"

text \<open>Lines 140 to 142: the target Euler angles. \<open>ire\<close> is
  \<^verbatim>\<open>initial_robot_euler\<close>, \<open>ipe\<close> is \<^verbatim>\<open>initial_phone_euler\<close>, \<open>ph_e\<close> the Euler
  angles of the current sample, each indexed 0, 1, 2.\<close>

definition target_orientation :: "real \<Rightarrow> vec3 \<Rightarrow> vec3 \<Rightarrow> vec3 \<Rightarrow> vec3" where
  "target_orientation scale ire ipe ph_e =
    (case ire of (r0, r1, r2) \<Rightarrow> case ipe of (i0, i1, i2) \<Rightarrow> case ph_e of (e0, e1, e2) \<Rightarrow>
       (r0 + (e1 - i1) * scale, r1 + (e2 - i2) * scale, r2 + (e0 - i0) * scale))"

text \<open>Lines 144 to 146: the jump / no-move test. A tuple of three floats is truthy,
  so the test is skipped exactly when \<^verbatim>\<open>last_sent_coords\<close> is \<^verbatim>\<open>None\<close>.\<close>

definition dist3 :: "vec3 \<Rightarrow> vec3 \<Rightarrow> real" where
  "dist3 a b =
    (case a of (ax, ay, az) \<Rightarrow> case b of (bx, by, bz) \<Rightarrow>
       sqrt ((ax - bx)\<^sup>2 + (ay - by)\<^sup>2 + (az - bz)\<^sup>2))"

definition jump_filter_rejects :: "node \<Rightarrow> vec3 \<Rightarrow> bool" where
  "jump_filter_rejects s safe =
    (case last_sent_coords s of
       None \<Rightarrow> False
     | Some sent \<Rightarrow>
         dist3 safe sent > MAX_JUMP_THRESHOLD s \<or> dist3 safe sent < MIN_MOVE_THRESHOLD s)"

text \<open>Lines 148 to 155: the ServoP request and the recorder message.\<close>

definition dispatch :: "node \<Rightarrow> vec3 \<Rightarrow> vec3 \<Rightarrow> effect list" where
  "dispatch s safe r =
    (case safe of (x, y, z) \<Rightarrow> case r of (rx, ry, rz) \<Rightarrow>
       [ServoP_call x y z rx ry rz,
        Publish_target [x, y, z, rx, ry, rz, current_gripper_val s]])"

text \<open>\<^verbatim>\<open>ar_pose_callback\<close> (lines 114 to 158). \<open>current_time\<close> is what
  \<^verbatim>\<open>time.time()\<close> returns. \<open>Inl\<close> is an exception leaving the callback; the node is
  then as it was, since both assignments are the last two statements.\<close>

definition ar_pose_callback ::
  "(quat \<Rightarrow> vec3) \<Rightarrow> real \<Rightarrow> pose \<Rightarrow> node \<Rightarrow> py_error + (node \<times> effect list)" where
  "ar_pose_callback efq current_time msg s =
    (if \<not> robot_enabled s then Inr (s, [])
     else if teleop_locked s then Inr (s, [])
     else case last_cmd_time s of
       None \<Rightarrow> Inl AttributeError
     | Some last_time \<Rightarrow>
         if current_time - last_time < CMD_INTERVAL s then Inr (s, [])
         else if \<not> initialized s then Inr (handle_init efq msg s)
         else
           (case initial_phone_pose s of
              None \<Rightarrow> Inl AttributeError
            | Some ipp \<Rightarrow>
           (case initial_robot_pose s of
              None \<Rightarrow> Inl TypeError
            | Some irp \<Rightarrow>
           (case initial_robot_euler s of
              None \<Rightarrow> Inl AttributeError
            | Some ire \<Rightarrow>
           (case initial_phone_euler s of
              None \<Rightarrow> Inl AttributeError
            | Some ipe \<Rightarrow>
                let t = target_position irp
                          (sensor_delta (position_scale s) (position msg) (position ipp));
                    safe = clamp_position s t;
                    r = target_orientation (rotation_scale s) ire ipe (efq (orientation msg))
                in if jump_filter_rejects s safe then Inr (s, [])
                   else Inr (s\<lparr>last_sent_coords := Some safe,
                                last_cmd_time := Some current_time\<rparr>,
                             dispatch s safe r))))))"

section \<open>Gripper actuation\<close>

text \<open>\<^verbatim>\<open>trigger_gripper\<close> (lines 78 to 87): lock, record the commanded value for
  the recorder, start the thread that runs \<^verbatim>\<open>_send_gripper_command\<close>.\<close>

definition trigger_gripper :: "string \<Rightarrow> node \<Rightarrow> node \<times> effect list" where
  "trigger_gripper action s =
    (s\<lparr>teleop_locked := True,
       current_gripper_val := (if action = ''close'' then 0 else 1)\<rparr>,
     [Log_info (''Triggering: '' @ action), Start_thread action])"

text \<open>\<^verbatim>\<open>_send_gripper_command\<close> (lines 89 to 105), statement by statement. The
  two assignments of the \<^verbatim>\<open>finally\<close> block are steps of their own, so that their
  place among the effects is kept. \<open>post_raises\<close> says whether \<^verbatim>\<open>requests.post\<close>
  raised an \<^verbatim>\<open>Exception\<close> (the \<^verbatim>\<open>except\<close> branch logs it).\<close>

datatype gripper_step =
    Effect effect
  | Clear_last_sent_coords
  | Release_lock

definition gripper_payload :: "string \<Rightarrow> nat list" where
  "gripper_payload action =
    (if action = ''close'' then [1, 6, 1, 3, 0, 0, 120, 54]
     else [1, 6, 1, 3, 3, 232, 120, 136])"

definition send_gripper_command_steps :: "string \<Rightarrow> bool \<Rightarrow> gripper_step list" where
  "send_gripper_command_steps action post_raises =
    [Effect (Sleep (3 / 10)), Effect (Http_post (gripper_payload action))]
    @ (if post_raises then [Effect Log_error] else [])
    @ [Effect (Sleep 1), Clear_last_sent_coords, Effect EnableRobot_call, Release_lock]"

fun exec_step :: "node \<times> effect list \<Rightarrow> gripper_step \<Rightarrow> node \<times> effect list" where
  "exec_step (s, out) (Effect e) = (s, out @ [e])"
| "exec_step (s, out) Clear_last_sent_coords = (s\<lparr>last_sent_coords := None\<rparr>, out)"
| "exec_step (s, out) Release_lock = (s\<lparr>teleop_locked := False\<rparr>, out)"

definition send_gripper_command :: "string \<Rightarrow> bool \<Rightarrow> node \<Rightarrow> node \<times> effect list" where
  "send_gripper_command action post_raises s =
    foldl exec_step (s, []) (send_gripper_command_steps action post_raises)"

section \<open>The handshake on the event loop\<close>

text \<open>
  The executor delivers three kinds of events to the handshake: the response of a
  ClearError call (to \<^verbatim>\<open>clear_cb\<close>), the response of an EnableRobot call (to
  \<^verbatim>\<open>enable_cb\<close>), and the firing of a timer. Timers made by \<^verbatim>\<open>create_timer\<close> are
  never cancelled by the node, so a timer stays in the list after it fired. The trace
  records events and effects in the order they happen.
\<close>

datatype event = ClearError_done int | EnableRobot_done int | Timer_fired nat

datatype trace_item = Ev event | Eff effect

record world =
  nd :: node
  pending_clear :: nat
  pending_enable :: nat
  timers :: "(real \<times> timer_callback) list"
  trace :: "trace_item list"

fun register :: "world \<Rightarrow> effect \<Rightarrow> world" where
  "register w ClearError_call =
     w\<lparr>pending_clear := Suc (pending_clear w), trace := trace w @ [Eff ClearError_call]\<rparr>"
| "register w EnableRobot_call =
     w\<lparr>pending_enable := Suc (pending_enable w), trace := trace w @ [Eff EnableRobot_call]\<rparr>"
| "register w (Create_timer period cb) =
     w\<lparr>timers := timers w @ [(period, cb)], trace := trace w @ [Eff (Create_timer period cb)]\<rparr>"
| "register w e = w\<lparr>trace := trace w @ [Eff e]\<rparr>"

definition emit :: "effect list \<Rightarrow> world \<Rightarrow> world" where
  "emit out w = foldl register w out"

definition run_timer_callback :: "timer_callback \<Rightarrow> effect list" where
  "run_timer_callback cb =
    (case cb of Async_clear_error \<Rightarrow> async_clear_error
              | Async_enable_robot \<Rightarrow> async_enable_robot)"

definition handshake_step :: "event \<Rightarrow> world \<Rightarrow> world option" where
  "handshake_step e w =
    (case e of
       ClearError_done res \<Rightarrow>
         if pending_clear w = 0 then None
         else Some (emit (snd (clear_cb res (nd w)))
                 (w\<lparr>nd := fst (clear_cb res (nd w)),
                    pending_clear := pending_clear w - 1,
                    trace := trace w @ [Ev e]\<rparr>))
     | EnableRobot_done res \<Rightarrow>
         if pending_enable w = 0 then None
         else Some (emit (snd (enable_cb res (nd w)))
                 (w\<lparr>nd := fst (enable_cb res (nd w)),
                    pending_enable := pending_enable w - 1,
                    trace := trace w @ [Ev e]\<rparr>))
     | Timer_fired i \<Rightarrow>
         if i < length (timers w)
         then Some (emit (run_timer_callback (snd (timers w ! i)))
                 (w\<lparr>trace := trace w @ [Ev e]\<rparr>))
         else None)"

fun handshake_run :: "event list \<Rightarrow> world \<Rightarrow> world option" where
  "handshake_run [] w = Some w"
| "handshake_run (e # es) w =
     (case handshake_step e w of None \<Rightarrow> None | Some w' \<Rightarrow> handshake_run es w')"

text \<open>The world after \<^verbatim>\<open>__init__\<close>: its last statement is \<^verbatim>\<open>async_clear_error()\<close>.\<close>

definition start_world :: world where
  "start_world =
    emit async_clear_error
      \<lparr>nd = init_node, pending_clear = 0, pending_enable = 0, timers = [], trace = []\<rparr>"

section \<open>Concrete sessions\<close>

text \<open>The Euler angles (roll, pitch, yaw) of a quaternion (x, 0, 0, w) with \<open>w > 0\<close>,
  a rotation about the sensor's x axis: roll is \<open>2 arctan (x / w)\<close>, pitch and yaw are
  zero. It stands for \<^verbatim>\<open>euler_from_quaternion\<close> on such samples.\<close>

definition roll_euler :: "quat \<Rightarrow> vec3" where
  "roll_euler q = (case q of (x, y, z, w) \<Rightarrow> (2 * arctan (x / w), 0, 0))"

text \<open>A node after the handshake and both baselines: the robot baseline as
  \<^verbatim>\<open>pose_cb\<close> stores it, the sensor baseline at the origin with the identity
  orientation, and a command accepted at time 0.\<close>

definition session_node :: "vec3 \<Rightarrow> vec3 \<Rightarrow> node" where
  "session_node irp ire =
    init_node\<lparr>robot_enabled := True, getting_initial_pose_flag := True,
      robot_pose_initialized := True, initialized := True,
      initial_robot_pose := Some irp, initial_robot_euler := Some ire,
      initial_phone_pose := Some \<lparr>position = (0, 0, 0), orientation = (0, 0, 0, 1)\<rparr>,
      initial_phone_euler := Some (0, 0, 0),
      last_cmd_time := Some 0\<rparr>"

text \<open>A sample that equals the sensor baseline of \<open>session_node\<close>.\<close>

definition still_sample :: pose where
  "still_sample = \<lparr>position = (0, 0, 0), orientation = (0, 0, 0, 1)\<rparr>"

text \<open>A session whose robot baseline is (0, 0, 300) and whose last sent target lies
  \<open>d\<close> units away from it along x: the still sample is then a candidate at distance
  \<open>d\<close> from the last sent target.\<close>

definition boundary_node :: "real \<Rightarrow> node" where
  "boundary_node d =
    (session_node (0, 0, 300) (0, 0, 0))\<lparr>last_sent_coords := Some (- d, 0, 300)\<rparr>"

text \<open>A session whose robot baseline is (0, 0, 300) and whose last sent target is
  \<open>v\<close>: the still sample is then the candidate (0, 0, 300), at any chosen offset from
  the last sent target.\<close>

definition sent_node :: "vec3 \<Rightarrow> node" where
  "sent_node v = (session_node (0, 0, 300) (0, 0, 0))\<lparr>last_sent_coords := Some v\<rparr>"

text \<open>A session with a target already sent, right after \<^verbatim>\<open>trigger_gripper("close")\<close>.\<close>

definition locked_node :: node where
  "locked_node =
    fst (trigger_gripper ''close''
      ((session_node (-300, 0, 300) (180, 0, 0))\<lparr>last_sent_coords := Some (-300, 0, 300)\<rparr>))"

section \<open>Notions of the specification\<close>

text \<open>The safety envelope: a position lies within the inclusive range of every axis.\<close>

definition within_limits :: "node \<Rightarrow> vec3 \<Rightarrow> bool" where
  "within_limits s p =
    (case p of (x, y, z) \<Rightarrow>
       fst (LIMITS_x s) \<le> x \<and> x \<le> snd (LIMITS_x s) \<and>
       fst (LIMITS_y s) \<le> y \<and> y \<le> snd (LIMITS_y s) \<and>
       fst (LIMITS_z s) \<le> z \<and> z \<le> snd (LIMITS_z s))"

text \<open>The orientation the specification describes when it lets the rotation axes
  follow the mapping of the position (robot x from minus sensor z, robot y from minus
  sensor x, robot z from plus sensor y). It is written from the specification's words,
  to be compared with \<open>target_orientation\<close>.\<close>

definition position_mapping_orientation :: "real \<Rightarrow> vec3 \<Rightarrow> vec3 \<Rightarrow> vec3 \<Rightarrow> vec3" where
  "position_mapping_orientation scale ire ipe ph_e =
    (case ire of (r0, r1, r2) \<Rightarrow> case ipe of (i0, i1, i2) \<Rightarrow> case ph_e of (e0, e1, e2) \<Rightarrow>
       (r0 - (e2 - i2) * scale, r1 - (e0 - i0) * scale, r2 + (e1 - i1) * scale))"

text \<open>Every EnableRobot call of a trace has a successful ClearError response before
  it.\<close>

abbreviation enable_follows_clear :: "trace_item list \<Rightarrow> bool" where
  "enable_follows_clear tr \<equiv>
    (\<forall>pre post. tr = pre @ Eff EnableRobot_call # post \<longrightarrow> Ev (ClearError_done 0) \<in> set pre)"

abbreviation handshake_inv :: "world \<Rightarrow> bool" where
  "handshake_inv w \<equiv>
    enable_follows_clear (trace w)
    \<and> (0 < pending_enable w \<or> Async_enable_robot \<in> snd ` set (timers w)
         \<longrightarrow> Ev (ClearError_done 0) \<in> set (trace w))
    \<and> (robot_enabled (nd w) \<longrightarrow> Ev (EnableRobot_done 0) \<in> set (trace w))
    \<and> (\<forall>t \<in> set (timers w). fst t = 1)"

section \<open>The callback, gate by gate\<close>

lemmas session_simps = session_node_def init_node_def still_sample_def boundary_node_def
  sensor_delta_def target_position_def clamp_position_def clamp_axis_def
  jump_filter_rejects_def dispatch_def target_orientation_def roll_euler_def

lemma callback_gated:
  assumes "\<not> robot_enabled s \<or> teleop_locked s
    \<or> (\<exists>t0. last_cmd_time s = Some t0 \<and> now - t0 < CMD_INTERVAL s)"
  shows "ar_pose_callback efq now msg s = Inr (s, [])"
  using assms by (cases "last_cmd_time s") (auto simp: ar_pose_callback_def)

lemma callback_no_timestamp:
  assumes "robot_enabled s" "\<not> teleop_locked s" "last_cmd_time s = None"
  shows "ar_pose_callback efq now msg s = Inl AttributeError"
  using assms by (simp add: ar_pose_callback_def)

lemma callback_missing_baseline:
  assumes "robot_enabled s" "\<not> teleop_locked s" "last_cmd_time s = Some t0"
    "\<not> now - t0 < CMD_INTERVAL s" "initialized s"
    "initial_phone_pose s = None \<or> initial_robot_pose s = None
      \<or> initial_robot_euler s = None \<or> initial_phone_euler s = None"
  shows "isl (ar_pose_callback efq now msg s)"
  using assms(1-5)
  by (cases "initial_phone_pose s"; cases "initial_robot_pose s";
      cases "initial_robot_euler s"; cases "initial_phone_euler s")
    (use assms(6) in \<open>simp_all add: ar_pose_callback_def\<close>)

lemma callback_initialized:
  assumes "robot_enabled s" "\<not> teleop_locked s" "last_cmd_time s = Some t0"
    "\<not> now - t0 < CMD_INTERVAL s" "initialized s"
    "initial_phone_pose s = Some ipp" "initial_robot_pose s = Some irp"
    "initial_robot_euler s = Some ire" "initial_phone_euler s = Some ipe"
  shows "ar_pose_callback efq now msg s =
    (if jump_filter_rejects s (clamp_position s (target_position irp
            (sensor_delta (position_scale s) (position msg) (position ipp))))
     then Inr (s, [])
     else Inr (s\<lparr>last_sent_coords := Some (clamp_position s (target_position irp
                     (sensor_delta (position_scale s) (position msg) (position ipp)))),
                 last_cmd_time := Some now\<rparr>,
               dispatch s (clamp_position s (target_position irp
                     (sensor_delta (position_scale s) (position msg) (position ipp))))
                 (target_orientation (rotation_scale s) ire ipe (efq (orientation msg)))))"
  using assms by (simp add: ar_pose_callback_def Let_def)

lemma dispatch_nonempty: "dispatch s safe r \<noteq> []"
  by (cases safe; cases r) (simp add: dispatch_def)

lemma callback_result_cases:
  assumes "initialized s" "ar_pose_callback efq now msg s = Inr (s', out)"
  obtains (dropped) "s' = s" "out = []"
  | (sent) t0 ipp irp ire ipe safe where
      "robot_enabled s" "\<not> teleop_locked s" "last_cmd_time s = Some t0"
      "\<not> now - t0 < CMD_INTERVAL s"
      "initial_phone_pose s = Some ipp" "initial_robot_pose s = Some irp"
      "initial_robot_euler s = Some ire" "initial_phone_euler s = Some ipe"
      "safe = clamp_position s (target_position irp
          (sensor_delta (position_scale s) (position msg) (position ipp)))"
      "\<not> jump_filter_rejects s safe"
      "s' = s\<lparr>last_sent_coords := Some safe, last_cmd_time := Some now\<rparr>"
      "out = dispatch s safe
          (target_orientation (rotation_scale s) ire ipe (efq (orientation msg)))"
proof (cases "\<not> robot_enabled s \<or> teleop_locked s
    \<or> (\<exists>t0. last_cmd_time s = Some t0 \<and> now - t0 < CMD_INTERVAL s)")
  case True
  from callback_gated [OF this, of efq msg] assms(2) show ?thesis
    by (intro dropped) auto
next
  case False
  then have g: "robot_enabled s" "\<not> teleop_locked s" by auto
  with callback_no_timestamp [OF g, of efq now msg] assms(2)
  obtain t0 where t0: "last_cmd_time s = Some t0" by (cases "last_cmd_time s") auto
  with False have late: "\<not> now - t0 < CMD_INTERVAL s" by auto
  from callback_missing_baseline [OF g t0 late assms(1), of efq msg] assms(2)
  obtain ipp irp ire ipe where b: "initial_phone_pose s = Some ipp"
    "initial_robot_pose s = Some irp" "initial_robot_euler s = Some ire"
    "initial_phone_euler s = Some ipe"
    by (cases "initial_phone_pose s"; cases "initial_robot_pose s";
        cases "initial_robot_euler s"; cases "initial_phone_euler s") auto
  note cb = callback_initialized [OF g t0 late assms(1) b, of efq msg]
  show ?thesis
  proof (cases "jump_filter_rejects s (clamp_position s (target_position irp
            (sensor_delta (position_scale s) (position msg) (position ipp))))")
    case True
    with cb assms(2) show ?thesis by (intro dropped) auto
  next
    case False
    with cb assms(2) show ?thesis
      by (intro sent [OF g t0 late b refl False]) auto
  qed
qed

section \<open>Sample gating\<close>

text \<open>
  Claim C1. Every incoming sample is either processed or dropped without an error; in
  particular the first sample that passes the enabled and unlocked gates is handled
  without error. The three gates do drop a sample silently (\<open>callback_gated\<close>), but
  the node built by \<^verbatim>\<open>__init__\<close> has no \<^verbatim>\<open>last_cmd_time\<close> attribute, and line 119
  reads it: after the shortest handshake (clear-error succeeds, enable succeeds) the
  node is enabled and unlocked, and the callback raises \<^verbatim>\<open>AttributeError\<close> on the
  first sample, whatever the sample and the clock are.
\<close>

theorem first_sample_raises:
  "\<exists>w. handshake_run [ClearError_done 0, EnableRobot_done 0] start_world = Some w
     \<and> robot_enabled (nd w) \<and> \<not> teleop_locked (nd w) \<and> last_cmd_time (nd w) = None
     \<and> ar_pose_callback efq current_time msg (nd w) = Inl AttributeError"
  by (simp add: handshake_step_def clear_cb_def enable_cb_def emit_def
      async_clear_error_def async_enable_robot_def start_world_def init_node_def
      ar_pose_callback_def)

section \<open>Pose mapping\<close>

text \<open>
  Claim C4. For every sensor sample and baseline, the candidate target position is:
  delta = (sensor position - baseline sensor position) * position_scale, then
  robot x = baseline robot x - delta z, robot y = baseline robot y - delta x,
  robot z = baseline robot z + delta y. The callback clamps exactly this candidate,
  tests it against the last sent target, and sends it when the test lets it pass.
\<close>

theorem candidate_position:
  assumes "robot_enabled s" "\<not> teleop_locked s" "last_cmd_time s = Some t0"
    "\<not> now - t0 < CMD_INTERVAL s" "initialized s"
    "initial_phone_pose s = Some ipp" "initial_robot_pose s = Some (bx, by, bz)"
    "initial_robot_euler s = Some ire" "initial_phone_euler s = Some ipe"
    "position msg = (x, y, z)" "position ipp = (x0, y0, z0)"
  shows "target_position (bx, by, bz) (sensor_delta (position_scale s) (x, y, z) (x0, y0, z0))
      = (bx - (z - z0) * position_scale s, by - (x - x0) * position_scale s,
         bz + (y - y0) * position_scale s)
    \<and> ar_pose_callback efq now msg s =
      (if jump_filter_rejects s (clamp_position s
            (bx - (z - z0) * position_scale s, by - (x - x0) * position_scale s,
             bz + (y - y0) * position_scale s))
       then Inr (s, [])
       else Inr (s\<lparr>last_sent_coords := Some (clamp_position s
                      (bx - (z - z0) * position_scale s, by - (x - x0) * position_scale s,
                       bz + (y - y0) * position_scale s)),
                   last_cmd_time := Some now\<rparr>,
                 dispatch s (clamp_position s
                      (bx - (z - z0) * position_scale s, by - (x - x0) * position_scale s,
                       bz + (y - y0) * position_scale s))
                   (target_orientation (rotation_scale s) ire ipe (efq (orientation msg)))))"
proof -
  have t: "target_position (bx, by, bz)
        (sensor_delta (position_scale s) (x, y, z) (x0, y0, z0))
      = (bx - (z - z0) * position_scale s, by - (x - x0) * position_scale s,
         bz + (y - y0) * position_scale s)"
    by (simp add: target_position_def sensor_delta_def)
  show ?thesis
    unfolding callback_initialized [OF assms(1-9)] assms(10,11) t by simp
qed

text \<open>A sample 0.01, 0.02, 0.03 away from the sensor baseline: the deltas are 9, 18
  and 27, and the target is (-300 - 27, 0 - 9, 300 + 18).\<close>

theorem candidate_position_witness:
  "ar_pose_callback roll_euler 1
      \<lparr>position = (1 / 100, 2 / 100, 3 / 100), orientation = (0, 0, 0, 1)\<rparr>
      (session_node (-300, 0, 300) (180, 0, 0))
    = Inr ((session_node (-300, 0, 300) (180, 0, 0))
              \<lparr>last_sent_coords := Some (-327, -9, 318), last_cmd_time := Some 1\<rparr>,
           [ServoP_call (-327) (-9) 318 180 0 0,
            Publish_target [-327, -9, 318, 180, 0, 0, 1]])"
  using candidate_position [of "session_node (-300, 0, 300) (180, 0, 0)" 0 1
      "\<lparr>position = (0, 0, 0), orientation = (0, 0, 0, 1)\<rparr>" "-300" 0 300 "(180, 0, 0)" "(0, 0, 0)"
      "\<lparr>position = (1 / 100, 2 / 100, 3 / 100), orientation = (0, 0, 0, 1)\<rparr>"
      "1 / 100" "2 / 100" "3 / 100" 0 0 0 roll_euler]
  by (simp add: session_simps)

text \<open>
  Claim C2, as amended. With the baseline robot pose (100, 0, 300), the baseline sensor
  pose at the origin and position_scale 900, the sensor sample (0, 0, 0.01) yields,
  before clamping, a target whose x coordinate has decreased by 0.01 * 900 = 9 units,
  while y and z are those of the baseline robot pose: the sensor's z axis drives the
  robot's x axis.
\<close>

theorem pure_z_delta_target:
  "target_position (100, 0, 300)
      (sensor_delta (position_scale init_node) (0, 0, 1 / 100) (0, 0, 0))
    = (100 - 1 / 100 * 900, 0, 300)"
  by (simp add: target_position_def sensor_delta_def init_node_def)

text \<open>The claim as it was stated asks for z to rise by 9 with x and y unchanged.\<close>

theorem pure_z_delta_counterexample:
  "target_position (100, 0, 300)
      (sensor_delta (position_scale init_node) (0, 0, 1 / 100) (0, 0, 0))
    \<noteq> (100, 0, 300 + 1 / 100 * 900)"
  by (simp add: target_position_def sensor_delta_def init_node_def)

text \<open>
  Claim C3, as amended. For every accepted sample, each target Euler angle is the
  baseline robot Euler angle plus (sensor Euler angle - baseline sensor Euler angle)
  * rotation_scale, where robot rx takes the sensor's angle of index 1, robot ry the
  angle of index 2 and robot rz the angle of index 0, all three with a plus sign. This
  is a mapping of its own, not the one of the position.
\<close>

theorem orientation_mapping:
  assumes "robot_enabled s" "\<not> teleop_locked s" "last_cmd_time s = Some t0"
    "\<not> now - t0 < CMD_INTERVAL s" "initialized s"
    "initial_phone_pose s = Some ipp" "initial_robot_pose s = Some irp"
    "initial_robot_euler s = Some (r0, r1, r2)" "initial_phone_euler s = Some (i0, i1, i2)"
    "efq (orientation msg) = (e0, e1, e2)"
    "ar_pose_callback efq now msg s = Inr (s', out)" "out \<noteq> []"
  shows "\<exists>x y z.
      out = [ServoP_call x y z
               (r0 + (e1 - i1) * rotation_scale s)
               (r1 + (e2 - i2) * rotation_scale s)
               (r2 + (e0 - i0) * rotation_scale s),
             Publish_target [x, y, z,
               r0 + (e1 - i1) * rotation_scale s,
               r1 + (e2 - i2) * rotation_scale s,
               r2 + (e0 - i0) * rotation_scale s,
               current_gripper_val s]]"
proof -
  let ?safe = "clamp_position s (target_position irp
      (sensor_delta (position_scale s) (position msg) (position ipp)))"
  have r: "target_orientation (rotation_scale s) (r0, r1, r2) (i0, i1, i2) (e0, e1, e2)
      = (r0 + (e1 - i1) * rotation_scale s, r1 + (e2 - i2) * rotation_scale s,
         r2 + (e0 - i0) * rotation_scale s)"
    by (simp add: target_orientation_def)
  have "out = dispatch s ?safe
      (target_orientation (rotation_scale s) (r0, r1, r2) (i0, i1, i2) (e0, e1, e2))"
    using assms(11,12) unfolding callback_initialized [OF assms(1-9)] assms(10)
    by (simp split: if_splits)
  then show ?thesis
    unfolding r by (cases ?safe) (simp add: dispatch_def)
qed

text \<open>A quarter turn about the sensor's x axis, from the identity baseline: the
  sensor's angle of index 0 is \<open>pi / 2\<close>, and it ends in the robot's rz.\<close>

theorem orientation_mapping_witness:
  "ar_pose_callback roll_euler 1
      \<lparr>position = (0, 0, 0), orientation = (sqrt 2 / 2, 0, 0, sqrt 2 / 2)\<rparr>
      (session_node (-300, 0, 300) (180, 0, 0))
    = Inr ((session_node (-300, 0, 300) (180, 0, 0))
              \<lparr>last_sent_coords := Some (-300, 0, 300), last_cmd_time := Some 1\<rparr>,
           [ServoP_call (-300) 0 300 180 0 (pi / 2 * rotation_scale init_node),
            Publish_target [-300, 0, 300, 180, 0, pi / 2 * rotation_scale init_node, 1]])"
  using orientation_mapping [of "session_node (-300, 0, 300) (180, 0, 0)" 0 1
      "\<lparr>position = (0, 0, 0), orientation = (0, 0, 0, 1)\<rparr>" "(-300, 0, 300)" 180 0 0 0 0 0
      roll_euler "\<lparr>position = (0, 0, 0), orientation = (sqrt 2 / 2, 0, 0, sqrt 2 / 2)\<rparr>"
      "pi / 2" 0 0
      "(session_node (-300, 0, 300) (180, 0, 0))
          \<lparr>last_sent_coords := Some (-300, 0, 300), last_cmd_time := Some 1\<rparr>"
      "[ServoP_call (-300) 0 300 180 0 (pi / 2 * rotation_scale init_node),
        Publish_target [-300, 0, 300, 180, 0, pi / 2 * rotation_scale init_node, 1]]"]
  by (simp add: arctan_one ar_pose_callback_def session_simps Let_def)

text \<open>The same sample under both mappings: the callback sends the quarter turn in rz
  and leaves ry alone, the mapping of the position would put it, negated, in ry.\<close>

theorem orientation_mapping_counterexample:
  "ar_pose_callback roll_euler 1
      \<lparr>position = (0, 0, 0), orientation = (sqrt 2 / 2, 0, 0, sqrt 2 / 2)\<rparr>
      (session_node (-300, 0, 300) (180, 0, 0))
    = Inr ((session_node (-300, 0, 300) (180, 0, 0))
              \<lparr>last_sent_coords := Some (-300, 0, 300), last_cmd_time := Some 1\<rparr>,
           dispatch (session_node (-300, 0, 300) (180, 0, 0)) (-300, 0, 300)
             (180, 0, pi / 2 * rotation_scale init_node))
   \<and> position_mapping_orientation (rotation_scale init_node) (180, 0, 0) (0, 0, 0)
        (roll_euler (sqrt 2 / 2, 0, 0, sqrt 2 / 2))
      = (180, - (pi / 2 * rotation_scale init_node), 0)
   \<and> (180, 0, pi / 2 * rotation_scale init_node)
      \<noteq> (180, - (pi / 2 * rotation_scale init_node), 0)"
  by (simp add: arctan_one ar_pose_callback_def session_simps Let_def
      position_mapping_orientation_def)

section \<open>Safety envelope\<close>

lemma clamp_axis_within:
  "fst b \<le> snd b \<Longrightarrow> fst b \<le> clamp_axis b t \<and> clamp_axis b t \<le> snd b"
  by (auto simp: clamp_axis_def)

lemma clamp_axis_fixed: "fst b \<le> t \<Longrightarrow> t \<le> snd b \<Longrightarrow> clamp_axis b t = t"
  by (auto simp: clamp_axis_def)

text \<open>
  Claim C9. For every position and every envelope whose minimum is at most its maximum
  on each axis, the clamped position lies within the envelope on x, y and z; a position
  already within bounds is returned as it is, so clamping twice is clamping once; and
  the orientation goes into the command as computed, unclamped.
\<close>

theorem envelope_clamp:
  assumes "fst (LIMITS_x s) \<le> snd (LIMITS_x s)" "fst (LIMITS_y s) \<le> snd (LIMITS_y s)"
    "fst (LIMITS_z s) \<le> snd (LIMITS_z s)"
  shows "within_limits s (clamp_position s p)
    \<and> (within_limits s p \<longrightarrow> clamp_position s p = p)
    \<and> clamp_position s (clamp_position s p) = clamp_position s p
    \<and> (\<exists>x y z. dispatch s (clamp_position s p) (rx, ry, rz) =
          [ServoP_call x y z rx ry rz,
           Publish_target [x, y, z, rx, ry, rz, current_gripper_val s]])"
proof -
  obtain px py pz where p: "p = (px, py, pz)" by (cases p) auto
  have in_env: "within_limits s (clamp_position s p)"
    using assms by (simp add: p within_limits_def clamp_position_def clamp_axis_within)
  have fixed: "within_limits s q \<Longrightarrow> clamp_position s q = q" for q
    by (cases q) (simp add: within_limits_def clamp_position_def clamp_axis_fixed)
  have "clamp_position s (clamp_position s p) = clamp_position s p"
    using in_env by (rule fixed)
  moreover have "\<exists>x y z. dispatch s (clamp_position s p) (rx, ry, rz) =
          [ServoP_call x y z rx ry rz,
           Publish_target [x, y, z, rx, ry, rz, current_gripper_val s]]"
    by (simp add: p clamp_position_def dispatch_def)
  ultimately show ?thesis using in_env fixed by blast
qed

text \<open>The limits of the node: (91, 0, 300) is cut to the x maximum 0, and
  (-300, 0, 300) is within bounds and stays.\<close>

theorem envelope_clamp_witness:
  "within_limits init_node (clamp_position init_node (91, 0, 300))
   \<and> clamp_position init_node (91, 0, 300) = (0, 0, 300)
   \<and> within_limits init_node (-300, 0, 300)
   \<and> clamp_position init_node (-300, 0, 300) = (-300, 0, 300)
   \<and> clamp_position init_node (clamp_position init_node (91, 0, 300))
       = clamp_position init_node (91, 0, 300)
   \<and> dispatch init_node (clamp_position init_node (91, 0, 300)) (180, 0, 720)
       = [ServoP_call 0 0 300 180 0 720, Publish_target [0, 0, 300, 180, 0, 720, 1]]"
  using envelope_clamp [of init_node "(91, 0, 300)" 180 0 720]
    envelope_clamp [of init_node "(-300, 0, 300)" 180 0 720]
  by (simp add: init_node_def within_limits_def clamp_position_def clamp_axis_def dispatch_def)

section \<open>Jump and no-move filter\<close>

lemma dist3_along_x: "dist3 (a, y, z) (b, y, z) = \<bar>a - b\<bar>"
  by (simp add: dist3_def)

lemma sqrt_1600: "sqrt 1600 = 40"
  by (rule real_sqrt_unique) simp_all

lemma sqrt_2500: "sqrt 2500 = 50"
  by (rule real_sqrt_unique) simp_all

lemmas sent_simps = sent_node_def session_simps power2_eq_square sqrt_1600 sqrt_2500

text \<open>
  Claim C5. When no target has been sent yet, the candidate is accepted
  unconditionally. When a target has been sent, the candidate is rejected if and only
  if the Euclidean distance d between the candidate position and the last sent
  position, the square root of the sum of the three squared coordinate differences,
  satisfies d > max_jump or d < min_move, both strict: a candidate at distance exactly
  min_move or exactly max_jump is accepted. Accepted means that the callback sends the
  command and records the target; rejected means that it returns with nothing sent and
  nothing changed; the two results differ.
\<close>

theorem jump_filter:
  assumes "robot_enabled s" "\<not> teleop_locked s" "last_cmd_time s = Some t0"
    "\<not> now - t0 < CMD_INTERVAL s" "initialized s"
    "initial_phone_pose s = Some ipp" "initial_robot_pose s = Some irp"
    "initial_robot_euler s = Some ire" "initial_phone_euler s = Some ipe"
    "clamp_position s (target_position irp
        (sensor_delta (position_scale s) (position msg) (position ipp))) = (cx, cy, cz)"
    "accepted = Inr (s\<lparr>last_sent_coords := Some (cx, cy, cz), last_cmd_time := Some now\<rparr>,
        dispatch s (cx, cy, cz)
          (target_orientation (rotation_scale s) ire ipe (efq (orientation msg))))"
  shows "accepted \<noteq> Inr (s, [])
    \<and> (last_sent_coords s = None \<longrightarrow>
          \<not> jump_filter_rejects s (cx, cy, cz) \<and> ar_pose_callback efq now msg s = accepted)
    \<and> (last_sent_coords s = Some (lx, ly, lz)
            \<and> d = sqrt ((cx - lx)\<^sup>2 + (cy - ly)\<^sup>2 + (cz - lz)\<^sup>2) \<longrightarrow>
          (jump_filter_rejects s (cx, cy, cz) \<longleftrightarrow>
             d > MAX_JUMP_THRESHOLD s \<or> d < MIN_MOVE_THRESHOLD s)
        \<and> (ar_pose_callback efq now msg s = Inr (s, []) \<longleftrightarrow>
             d > MAX_JUMP_THRESHOLD s \<or> d < MIN_MOVE_THRESHOLD s)
        \<and> (ar_pose_callback efq now msg s = accepted \<longleftrightarrow>
             \<not> (d > MAX_JUMP_THRESHOLD s \<or> d < MIN_MOVE_THRESHOLD s))
        \<and> (MIN_MOVE_THRESHOLD s \<le> MAX_JUMP_THRESHOLD s \<and>
             (d = MIN_MOVE_THRESHOLD s \<or> d = MAX_JUMP_THRESHOLD s)
             \<longrightarrow> ar_pose_callback efq now msg s = accepted))"
proof -
  let ?safe = "(cx, cy, cz)"
  have cb: "ar_pose_callback efq now msg s =
      (if jump_filter_rejects s ?safe then Inr (s, []) else accepted)"
    unfolding callback_initialized [OF assms(1-9)] assms(10,11) ..
  have absent: "last_sent_coords s = None \<Longrightarrow> \<not> jump_filter_rejects s ?safe"
    by (simp add: jump_filter_rejects_def)
  have present: "jump_filter_rejects s ?safe \<longleftrightarrow>
        sqrt ((cx - lx)\<^sup>2 + (cy - ly)\<^sup>2 + (cz - lz)\<^sup>2) > MAX_JUMP_THRESHOLD s
        \<or> sqrt ((cx - lx)\<^sup>2 + (cy - ly)\<^sup>2 + (cz - lz)\<^sup>2) < MIN_MOVE_THRESHOLD s"
    if "last_sent_coords s = Some (lx, ly, lz)" for lx ly lz
    using that by (simp add: jump_filter_rejects_def dist3_def)
  have differ: "accepted \<noteq> Inr (s, [])"
    unfolding assms(11) using dispatch_nonempty by simp
  have dropped: "ar_pose_callback efq now msg s = Inr (s, []) \<longleftrightarrow> jump_filter_rejects s ?safe"
    unfolding cb using differ by simp
  have sent_out: "ar_pose_callback efq now msg s = accepted \<longleftrightarrow> \<not> jump_filter_rejects s ?safe"
    unfolding cb using differ by auto
  show ?thesis
    using absent present dropped sent_out differ by auto
qed

text \<open>The still sample, candidate (0, 0, 300). With nothing sent before it is
  accepted. Against last sent targets that differ from it on all three axes: at
  distance 2 and at distance 40 it is accepted, at distance 1 it is rejected. At
  distance 50, with 30 on x and 40 on z, each within the thresholds alone, it is
  rejected.\<close>

theorem jump_filter_witness:
  "ar_pose_callback roll_euler 1 still_sample (session_node (0, 0, 300) (0, 0, 0))
     = Inr ((session_node (0, 0, 300) (0, 0, 0))
               \<lparr>last_sent_coords := Some (0, 0, 300), last_cmd_time := Some 1\<rparr>,
            [ServoP_call 0 0 300 0 0 0, Publish_target [0, 0, 300, 0, 0, 0, 1]])
   \<and> (sqrt ((0 - (- 4 / 7))\<^sup>2 + (0 - 6 / 7)\<^sup>2 + (300 - 2112 / 7)\<^sup>2) = (2::real)
     \<and> ar_pose_callback roll_euler 1 still_sample (sent_node (- 4 / 7, 6 / 7, 2112 / 7))
       = Inr ((sent_node (- 4 / 7, 6 / 7, 2112 / 7))
                 \<lparr>last_sent_coords := Some (0, 0, 300), last_cmd_time := Some 1\<rparr>,
              [ServoP_call 0 0 300 0 0 0, Publish_target [0, 0, 300, 0, 0, 0, 1]]))
   \<and> (sqrt ((0 - (- 80 / 7))\<^sup>2 + (0 - 120 / 7)\<^sup>2 + (300 - 2340 / 7)\<^sup>2) = (40::real)
     \<and> ar_pose_callback roll_euler 1 still_sample (sent_node (- 80 / 7, 120 / 7, 2340 / 7))
       = Inr ((sent_node (- 80 / 7, 120 / 7, 2340 / 7))
                 \<lparr>last_sent_coords := Some (0, 0, 300), last_cmd_time := Some 1\<rparr>,
              [ServoP_call 0 0 300 0 0 0, Publish_target [0, 0, 300, 0, 0, 0, 1]]))
   \<and> (sqrt ((0 - (- 2 / 7))\<^sup>2 + (0 - 3 / 7)\<^sup>2 + (300 - 2106 / 7)\<^sup>2) = (1::real)
     \<and> ar_pose_callback roll_euler 1 still_sample (sent_node (- 2 / 7, 3 / 7, 2106 / 7))
       = Inr (sent_node (- 2 / 7, 3 / 7, 2106 / 7), []))
   \<and> (sqrt ((0 - (- 30))\<^sup>2 + (0 - 0)\<^sup>2 + (300 - 340)\<^sup>2) = (50::real)
     \<and> ar_pose_callback roll_euler 1 still_sample (sent_node (- 30, 0, 340))
       = Inr (sent_node (- 30, 0, 340), []))"
proof -
  have first: "ar_pose_callback roll_euler 1 still_sample (session_node (0, 0, 300) (0, 0, 0))
     = Inr ((session_node (0, 0, 300) (0, 0, 0))
               \<lparr>last_sent_coords := Some (0, 0, 300), last_cmd_time := Some 1\<rparr>,
            [ServoP_call 0 0 300 0 0 0, Publish_target [0, 0, 300, 0, 0, 0, 1]])"
    using jump_filter [of "session_node (0, 0, 300) (0, 0, 0)" 0 1 still_sample "(0, 0, 300)"
      "(0, 0, 0)" "(0, 0, 0)" still_sample 0 0 300 _ roll_euler 0 0 0 0,
      OF _ _ _ _ _ _ _ _ _ _ refl]
    by (simp add: sent_simps)
  have at_min: "sqrt ((0 - (- 4 / 7))\<^sup>2 + (0 - 6 / 7)\<^sup>2 + (300 - 2112 / 7)\<^sup>2) = (2::real)
     \<and> ar_pose_callback roll_euler 1 still_sample (sent_node (- 4 / 7, 6 / 7, 2112 / 7))
       = Inr ((sent_node (- 4 / 7, 6 / 7, 2112 / 7))
                 \<lparr>last_sent_coords := Some (0, 0, 300), last_cmd_time := Some 1\<rparr>,
              [ServoP_call 0 0 300 0 0 0, Publish_target [0, 0, 300, 0, 0, 0, 1]])"
    using jump_filter [of "sent_node (- 4 / 7, 6 / 7, 2112 / 7)" 0 1 still_sample "(0, 0, 300)"
      "(0, 0, 0)" "(0, 0, 0)" still_sample 0 0 300 _ roll_euler "- 4 / 7" "6 / 7" "2112 / 7" 2,
      OF _ _ _ _ _ _ _ _ _ _ refl]
    by (simp add: sent_simps)
  have at_max: "sqrt ((0 - (- 80 / 7))\<^sup>2 + (0 - 120 / 7)\<^sup>2 + (300 - 2340 / 7)\<^sup>2) = (40::real)
     \<and> ar_pose_callback roll_euler 1 still_sample (sent_node (- 80 / 7, 120 / 7, 2340 / 7))
       = Inr ((sent_node (- 80 / 7, 120 / 7, 2340 / 7))
                 \<lparr>last_sent_coords := Some (0, 0, 300), last_cmd_time := Some 1\<rparr>,
              [ServoP_call 0 0 300 0 0 0, Publish_target [0, 0, 300, 0, 0, 0, 1]])"
    using jump_filter [of "sent_node (- 80 / 7, 120 / 7, 2340 / 7)" 0 1 still_sample
      "(0, 0, 300)" "(0, 0, 0)" "(0, 0, 0)" still_sample 0 0 300 _ roll_euler
      "- 80 / 7" "120 / 7" "2340 / 7" 40,
      OF _ _ _ _ _ _ _ _ _ _ refl]
    by (simp add: sent_simps)
  have below: "sqrt ((0 - (- 2 / 7))\<^sup>2 + (0 - 3 / 7)\<^sup>2 + (300 - 2106 / 7)\<^sup>2) = (1::real)
     \<and> ar_pose_callback roll_euler 1 still_sample (sent_node (- 2 / 7, 3 / 7, 2106 / 7))
       = Inr (sent_node (- 2 / 7, 3 / 7, 2106 / 7), [])"
    using jump_filter [of "sent_node (- 2 / 7, 3 / 7, 2106 / 7)" 0 1 still_sample "(0, 0, 300)"
      "(0, 0, 0)" "(0, 0, 0)" still_sample 0 0 300 _ roll_euler "- 2 / 7" "3 / 7" "2106 / 7" 1,
      OF _ _ _ _ _ _ _ _ _ _ refl]
    by (simp add: sent_simps)
  have above: "sqrt ((0 - (- 30))\<^sup>2 + (0 - 0)\<^sup>2 + (300 - 340)\<^sup>2) = (50::real)
     \<and> ar_pose_callback roll_euler 1 still_sample (sent_node (- 30, 0, 340))
       = Inr (sent_node (- 30, 0, 340), [])"
    using jump_filter [of "sent_node (- 30, 0, 340)" 0 1 still_sample "(0, 0, 300)"
      "(0, 0, 0)" "(0, 0, 0)" still_sample 0 0 300 _ roll_euler "- 30" 0 340 50,
      OF _ _ _ _ _ _ _ _ _ _ refl]
    by (simp add: sent_simps)
  from first at_min at_max below above show ?thesis
    by (intro conjI) (erule conjunct1 conjunct2 | assumption)+
qed

lemma sent_node_ready:
  "robot_enabled (sent_node v)" "\<not> teleop_locked (sent_node v)"
  "last_cmd_time (sent_node v) = Some 0" "\<not> 1 - 0 < CMD_INTERVAL (sent_node v)"
  "initialized (sent_node v)" "initial_phone_pose (sent_node v) = Some still_sample"
  "initial_robot_pose (sent_node v) = Some (0, 0, 300)"
  "initial_robot_euler (sent_node v) = Some (0, 0, 0)"
  "initial_phone_euler (sent_node v) = Some (0, 0, 0)"
  "clamp_position (sent_node v) (target_position (0, 0, 300)
      (sensor_delta (position_scale (sent_node v)) (position still_sample)
        (position still_sample))) = (0, 0, 300)"
  by (simp_all add: sent_simps)

lemma sent_node_sent: "last_sent_coords (sent_node v) = Some v"
  by (simp add: sent_node_def)

lemma sent_node_thresholds:
  "MIN_MOVE_THRESHOLD (sent_node v) = 2" "MAX_JUMP_THRESHOLD (sent_node v) = 40"
  by (simp_all add: sent_simps)

lemma sent_node_dispatch:
  "dispatch (sent_node v) (0, 0, 300)
      (target_orientation (rotation_scale (sent_node v)) (0, 0, 0) (0, 0, 0)
        (roll_euler (orientation still_sample)))
    = [ServoP_call 0 0 300 0 0 0, Publish_target [0, 0, 300, 0, 0, 0, 1]]"
  by (simp add: sent_simps)

text \<open>
  Claim C6, as amended. With a last sent target present and d the Euclidean distance
  between the candidate and it: if d < min_move or d > max_jump the candidate is
  rejected and the callback returns with nothing sent; if min_move \<le> d \<le> max_jump it is
  accepted and sent, which is another result. The comparisons are strict: a candidate
  exactly at the min_move boundary or exactly at the max_jump boundary is not rejected.
\<close>

theorem strict_rejection:
  assumes "robot_enabled s" "\<not> teleop_locked s" "last_cmd_time s = Some t0"
    "\<not> now - t0 < CMD_INTERVAL s" "initialized s"
    "initial_phone_pose s = Some ipp" "initial_robot_pose s = Some irp"
    "initial_robot_euler s = Some ire" "initial_phone_euler s = Some ipe"
    "clamp_position s (target_position irp
        (sensor_delta (position_scale s) (position msg) (position ipp))) = (cx, cy, cz)"
    "accepted = Inr (s\<lparr>last_sent_coords := Some (cx, cy, cz), last_cmd_time := Some now\<rparr>,
        dispatch s (cx, cy, cz)
          (target_orientation (rotation_scale s) ire ipe (efq (orientation msg))))"
    "last_sent_coords s = Some (lx, ly, lz)"
    "d = sqrt ((cx - lx)\<^sup>2 + (cy - ly)\<^sup>2 + (cz - lz)\<^sup>2)"
  shows "accepted \<noteq> Inr (s, [])
    \<and> (d < MIN_MOVE_THRESHOLD s \<or> d > MAX_JUMP_THRESHOLD s \<longrightarrow>
          jump_filter_rejects s (cx, cy, cz) \<and> ar_pose_callback efq now msg s = Inr (s, []))
    \<and> (MIN_MOVE_THRESHOLD s \<le> d \<and> d \<le> MAX_JUMP_THRESHOLD s \<longrightarrow>
          \<not> jump_filter_rejects s (cx, cy, cz) \<and> ar_pose_callback efq now msg s = accepted)
    \<and> (MIN_MOVE_THRESHOLD s \<le> MAX_JUMP_THRESHOLD s
          \<and> (d = MIN_MOVE_THRESHOLD s \<or> d = MAX_JUMP_THRESHOLD s) \<longrightarrow>
          \<not> jump_filter_rejects s (cx, cy, cz) \<and> ar_pose_callback efq now msg s = accepted)"
proof -
  have rej: "jump_filter_rejects s (cx, cy, cz) \<longleftrightarrow>
      d > MAX_JUMP_THRESHOLD s \<or> d < MIN_MOVE_THRESHOLD s"
    using assms(12,13) by (simp add: jump_filter_rejects_def dist3_def)
  have cb: "ar_pose_callback efq now msg s =
      (if jump_filter_rejects s (cx, cy, cz) then Inr (s, []) else accepted)"
    unfolding callback_initialized [OF assms(1-9)] assms(10,11) ..
  have differ: "accepted \<noteq> Inr (s, [])"
    unfolding assms(11) using dispatch_nonempty by simp
  have drop: "jump_filter_rejects s (cx, cy, cz) \<Longrightarrow>
      ar_pose_callback efq now msg s = Inr (s, [])"
    unfolding cb by simp
  have pass: "\<not> jump_filter_rejects s (cx, cy, cz) \<Longrightarrow>
      ar_pose_callback efq now msg s = accepted"
    unfolding cb by simp
  have r1: "d < MIN_MOVE_THRESHOLD s \<or> d > MAX_JUMP_THRESHOLD s \<Longrightarrow>
      jump_filter_rejects s (cx, cy, cz)"
    using rej by blast
  have r2: "MIN_MOVE_THRESHOLD s \<le> d \<and> d \<le> MAX_JUMP_THRESHOLD s \<Longrightarrow>
      \<not> jump_filter_rejects s (cx, cy, cz)"
    using rej by auto
  have r3: "MIN_MOVE_THRESHOLD s \<le> MAX_JUMP_THRESHOLD s
      \<and> (d = MIN_MOVE_THRESHOLD s \<or> d = MAX_JUMP_THRESHOLD s) \<Longrightarrow>
      \<not> jump_filter_rejects s (cx, cy, cz)"
    using rej by auto
  show ?thesis
    using r1 r2 r3 drop pass differ by blast
qed

text \<open>The still sample against last sent targets off the axes: rejected at distance
  1 and at distance 50, sent at distance exactly 2 and at distance exactly 40.\<close>

theorem strict_rejection_witness:
  "(sqrt ((0 - (- 3 / 5))\<^sup>2 + (0 - 4 / 5)\<^sup>2 + (300 - 300)\<^sup>2) = (1::real)
     \<and> ar_pose_callback roll_euler 1 still_sample (sent_node (- 3 / 5, 4 / 5, 300))
       = Inr (sent_node (- 3 / 5, 4 / 5, 300), []))
   \<and> (sqrt ((0 - (- 30))\<^sup>2 + (0 - 40)\<^sup>2 + (300 - 300)\<^sup>2) = (50::real)
     \<and> ar_pose_callback roll_euler 1 still_sample (sent_node (- 30, 40, 300))
       = Inr (sent_node (- 30, 40, 300), []))
   \<and> (sqrt ((0 - (- 6 / 5))\<^sup>2 + (0 - 8 / 5)\<^sup>2 + (300 - 300)\<^sup>2) = (2::real)
     \<and> ar_pose_callback roll_euler 1 still_sample (sent_node (- 6 / 5, 8 / 5, 300))
       = Inr ((sent_node (- 6 / 5, 8 / 5, 300))
                 \<lparr>last_sent_coords := Some (0, 0, 300), last_cmd_time := Some 1\<rparr>,
              [ServoP_call 0 0 300 0 0 0, Publish_target [0, 0, 300, 0, 0, 0, 1]]))
   \<and> (sqrt ((0 - (- 24))\<^sup>2 + (0 - 32)\<^sup>2 + (300 - 300)\<^sup>2) = (40::real)
     \<and> ar_pose_callback roll_euler 1 still_sample (sent_node (- 24, 32, 300))
       = Inr ((sent_node (- 24, 32, 300))
                 \<lparr>last_sent_coords := Some (0, 0, 300), last_cmd_time := Some 1\<rparr>,
              [ServoP_call 0 0 300 0 0 0, Publish_target [0, 0, 300, 0, 0, 0, 1]]))"
proof -
  have d1: "(1::real) = sqrt ((0 - (- 3 / 5))\<^sup>2 + (0 - 4 / 5)\<^sup>2 + (300 - 300)\<^sup>2)"
    by (simp add: power2_eq_square)
  have d50: "(50::real) = sqrt ((0 - (- 30))\<^sup>2 + (0 - 40)\<^sup>2 + (300 - 300)\<^sup>2)"
    by (simp add: power2_eq_square sqrt_2500)
  have d2: "(2::real) = sqrt ((0 - (- 6 / 5))\<^sup>2 + (0 - 8 / 5)\<^sup>2 + (300 - 300)\<^sup>2)"
    by (simp add: power2_eq_square)
  have d40: "(40::real) = sqrt ((0 - (- 24))\<^sup>2 + (0 - 32)\<^sup>2 + (300 - 300)\<^sup>2)"
    by (simp add: power2_eq_square sqrt_1600)
  note below = strict_rejection [where efq = roll_euler,
      OF sent_node_ready [of "(- 3 / 5, 4 / 5, 300)"] refl sent_node_sent d1]
  note above = strict_rejection [where efq = roll_euler,
      OF sent_node_ready [of "(- 30, 40, 300)"] refl sent_node_sent d50]
  note at_min = strict_rejection [where efq = roll_euler,
      OF sent_node_ready [of "(- 6 / 5, 8 / 5, 300)"] refl sent_node_sent d2]
  note at_max = strict_rejection [where efq = roll_euler,
      OF sent_node_ready [of "(- 24, 32, 300)"] refl sent_node_sent d40]
  have "1 < MIN_MOVE_THRESHOLD (sent_node (- 3 / 5, 4 / 5, 300))
      \<or> 1 > MAX_JUMP_THRESHOLD (sent_node (- 3 / 5, 4 / 5, 300))"
    by (simp add: sent_node_thresholds)
  from below [THEN conjunct2, THEN conjunct1, THEN mp, OF this, THEN conjunct2]
  have c1: "ar_pose_callback roll_euler 1 still_sample (sent_node (- 3 / 5, 4 / 5, 300))
      = Inr (sent_node (- 3 / 5, 4 / 5, 300), [])" .
  have "50 < MIN_MOVE_THRESHOLD (sent_node (- 30, 40, 300))
      \<or> 50 > MAX_JUMP_THRESHOLD (sent_node (- 30, 40, 300))"
    by (simp add: sent_node_thresholds)
  from above [THEN conjunct2, THEN conjunct1, THEN mp, OF this, THEN conjunct2]
  have c50: "ar_pose_callback roll_euler 1 still_sample (sent_node (- 30, 40, 300))
      = Inr (sent_node (- 30, 40, 300), [])" .
  have "MIN_MOVE_THRESHOLD (sent_node (- 6 / 5, 8 / 5, 300))
        \<le> MAX_JUMP_THRESHOLD (sent_node (- 6 / 5, 8 / 5, 300))
      \<and> (2 = MIN_MOVE_THRESHOLD (sent_node (- 6 / 5, 8 / 5, 300))
         \<or> 2 = MAX_JUMP_THRESHOLD (sent_node (- 6 / 5, 8 / 5, 300)))"
    by (simp add: sent_node_thresholds)
  from at_min [THEN conjunct2, THEN conjunct2, THEN conjunct2, THEN mp, OF this, THEN conjunct2]
  have c2: "ar_pose_callback roll_euler 1 still_sample (sent_node (- 6 / 5, 8 / 5, 300))
      = Inr ((sent_node (- 6 / 5, 8 / 5, 300))
                 \<lparr>last_sent_coords := Some (0, 0, 300), last_cmd_time := Some 1\<rparr>,
              [ServoP_call 0 0 300 0 0 0, Publish_target [0, 0, 300, 0, 0, 0, 1]])"
    unfolding sent_node_dispatch .
  have "MIN_MOVE_THRESHOLD (sent_node (- 24, 32, 300))
        \<le> MAX_JUMP_THRESHOLD (sent_node (- 24, 32, 300))
      \<and> (40 = MIN_MOVE_THRESHOLD (sent_node (- 24, 32, 300))
         \<or> 40 = MAX_JUMP_THRESHOLD (sent_node (- 24, 32, 300)))"
    by (simp add: sent_node_thresholds)
  from at_max [THEN conjunct2, THEN conjunct2, THEN conjunct2, THEN mp, OF this, THEN conjunct2]
  have c40: "ar_pose_callback roll_euler 1 still_sample (sent_node (- 24, 32, 300))
      = Inr ((sent_node (- 24, 32, 300))
                 \<lparr>last_sent_coords := Some (0, 0, 300), last_cmd_time := Some 1\<rparr>,
              [ServoP_call 0 0 300 0 0 0, Publish_target [0, 0, 300, 0, 0, 0, 1]])"
    unfolding sent_node_dispatch .
  from d1 [symmetric] c1 d50 [symmetric] c50 d2 [symmetric] c2 d40 [symmetric] c40
  show ?thesis by (intro conjI)
qed

text \<open>The claim as it was stated asks for a rejection at the thresholds themselves.
  The candidate (0, 0, 300) lies at Euclidean distance exactly 2 (min_move) from the
  last sent target (-6/5, 8/5, 300) and exactly 40 (max_jump) from the last sent target
  (-24, 32, 300); the callback sends it in both sessions.\<close>

theorem boundary_accepted_counterexample:
  "last_sent_coords (sent_node (- 6 / 5, 8 / 5, 300)) = Some (- 6 / 5, 8 / 5, 300)
   \<and> sqrt ((0 - (- 6 / 5))\<^sup>2 + (0 - 8 / 5)\<^sup>2 + (300 - 300)\<^sup>2)
        \<le> MIN_MOVE_THRESHOLD (sent_node (- 6 / 5, 8 / 5, 300))
   \<and> ar_pose_callback roll_euler 1 still_sample (sent_node (- 6 / 5, 8 / 5, 300))
      = Inr ((sent_node (- 6 / 5, 8 / 5, 300))
                \<lparr>last_sent_coords := Some (0, 0, 300), last_cmd_time := Some 1\<rparr>,
             [ServoP_call 0 0 300 0 0 0, Publish_target [0, 0, 300, 0, 0, 0, 1]])
   \<and> last_sent_coords (sent_node (- 24, 32, 300)) = Some (- 24, 32, 300)
   \<and> sqrt ((0 - (- 24))\<^sup>2 + (0 - 32)\<^sup>2 + (300 - 300)\<^sup>2)
        \<ge> MAX_JUMP_THRESHOLD (sent_node (- 24, 32, 300))
   \<and> ar_pose_callback roll_euler 1 still_sample (sent_node (- 24, 32, 300))
      = Inr ((sent_node (- 24, 32, 300))
                \<lparr>last_sent_coords := Some (0, 0, 300), last_cmd_time := Some 1\<rparr>,
             [ServoP_call 0 0 300 0 0 0, Publish_target [0, 0, 300, 0, 0, 0, 1]])"
  by (simp add: ar_pose_callback_def sent_simps dist3_def Let_def)

section \<open>Frame of a processed sample\<close>

text \<open>
  Claim C10. Processing a sample in the initialized state changes at most
  \<^verbatim>\<open>last_sent_coords\<close> and \<^verbatim>\<open>last_cmd_time\<close>: the four baselines, the gripper
  value and the flags \<^verbatim>\<open>robot_enabled\<close>, \<^verbatim>\<open>teleop_locked\<close>, \<^verbatim>\<open>initialized\<close> and
  \<^verbatim>\<open>robot_pose_initialized\<close> are as before, and a sample that is gated out or
  rejected by the filter changes nothing at all.
\<close>

theorem sample_frame:
  assumes "initialized s" "ar_pose_callback efq now msg s = Inr (s', out)"
  shows "s' = s\<lparr>last_sent_coords := last_sent_coords s', last_cmd_time := last_cmd_time s'\<rparr>
    \<and> initial_robot_pose s' = initial_robot_pose s
    \<and> initial_robot_euler s' = initial_robot_euler s
    \<and> initial_phone_pose s' = initial_phone_pose s
    \<and> initial_phone_euler s' = initial_phone_euler s
    \<and> current_gripper_val s' = current_gripper_val s
    \<and> robot_enabled s' = robot_enabled s
    \<and> teleop_locked s' = teleop_locked s
    \<and> initialized s' = initialized s
    \<and> robot_pose_initialized s' = robot_pose_initialized s
    \<and> (out = [] \<longrightarrow> s' = s)
    \<and> (\<not> robot_enabled s \<or> teleop_locked s
         \<or> (\<exists>t0. last_cmd_time s = Some t0 \<and> now - t0 < CMD_INTERVAL s)
        \<longrightarrow> s' = s \<and> out = [])
    \<and> (\<forall>irp ipp. initial_robot_pose s = Some irp \<and> initial_phone_pose s = Some ipp
          \<and> jump_filter_rejects s (clamp_position s (target_position irp
                (sensor_delta (position_scale s) (position msg) (position ipp))))
        \<longrightarrow> s' = s \<and> out = [])"
  using assms
proof (cases rule: callback_result_cases)
  case dropped
  then show ?thesis by simp
next
  case (sent t0 ipp irp ire ipe safe)
  have "out \<noteq> []"
    unfolding sent(12) by (rule dispatch_nonempty)
  with sent show ?thesis by auto
qed

text \<open>One accepted sample (time 1, nothing sent before), one sample inside the
  command interval (time 0.01), one rejected by the filter (1 unit from the last sent
  target).\<close>

theorem sample_frame_witness:
  "initialized (session_node (-300, 0, 300) (180, 0, 0))
   \<and> ar_pose_callback roll_euler 1 still_sample (session_node (-300, 0, 300) (180, 0, 0))
    = Inr ((session_node (-300, 0, 300) (180, 0, 0))
             \<lparr>last_sent_coords := Some (-300, 0, 300), last_cmd_time := Some 1\<rparr>,
           [ServoP_call (-300) 0 300 180 0 0, Publish_target [-300, 0, 300, 180, 0, 0, 1]])
   \<and> ar_pose_callback roll_euler (1 / 100) still_sample
        (session_node (-300, 0, 300) (180, 0, 0))
    = Inr (session_node (-300, 0, 300) (180, 0, 0), [])
   \<and> initialized (boundary_node 1)
   \<and> ar_pose_callback roll_euler 1 still_sample (boundary_node 1) = Inr (boundary_node 1, [])"
  using sample_frame [of "session_node (-300, 0, 300) (180, 0, 0)" roll_euler 1 still_sample
      "(session_node (-300, 0, 300) (180, 0, 0))
             \<lparr>last_sent_coords := Some (-300, 0, 300), last_cmd_time := Some 1\<rparr>"
      "[ServoP_call (-300) 0 300 180 0 0, Publish_target [-300, 0, 300, 180, 0, 0, 1]]"]
    sample_frame [of "session_node (-300, 0, 300) (180, 0, 0)" roll_euler "1 / 100"
      still_sample "session_node (-300, 0, 300) (180, 0, 0)" "[]"]
    sample_frame [of "boundary_node 1" roll_euler 1 still_sample "boundary_node 1" "[]"]
  by (simp add: ar_pose_callback_def Let_def dist3_along_x session_simps)

section \<open>Gripper actuation sequence\<close>

lemma exec_step_keeps_lock:
  "Release_lock \<noteq> st \<Longrightarrow> teleop_locked (fst (exec_step acc st)) = teleop_locked (fst acc)"
  by (cases acc; cases st) simp_all

lemma foldl_exec_step_keeps_lock:
  "Release_lock \<notin> set sts \<Longrightarrow>
    teleop_locked (fst (foldl exec_step acc sts)) = teleop_locked (fst acc)"
  by (induction sts arbitrary: acc) (simp_all add: exec_step_keeps_lock)

text \<open>
  Claim C7. Every gripper actuation sequence, whether the actuator call returns or
  raises, ends with the same four steps: the settling delay of one second, then
  \<^verbatim>\<open>last_sent_coords\<close> is cleared, then an enable request goes to the robot driver,
  and only then the lock is released. None of the three last steps happens earlier in
  the sequence, the lock is as it was after every proper prefix of the sequence, and at
  the end the node differs from the one at the start only in \<^verbatim>\<open>last_sent_coords\<close>,
  which is absent, and \<^verbatim>\<open>teleop_locked\<close>, which is false.
\<close>

theorem gripper_sequence_completes:
  "(\<exists>pre. send_gripper_command_steps action post_raises =
        pre @ [Effect (Sleep 1), Clear_last_sent_coords, Effect EnableRobot_call, Release_lock]
      \<and> Clear_last_sent_coords \<notin> set pre \<and> Effect EnableRobot_call \<notin> set pre
      \<and> Release_lock \<notin> set pre)
   \<and> fst (send_gripper_command action post_raises s)
       = s\<lparr>last_sent_coords := None, teleop_locked := False\<rparr>
   \<and> snd (send_gripper_command action post_raises s)
       = [Sleep (3 / 10), Http_post (gripper_payload action)]
         @ (if post_raises then [Log_error] else []) @ [Sleep 1, EnableRobot_call]
   \<and> (\<forall>n < length (send_gripper_command_steps action post_raises).
        teleop_locked (fst (foldl exec_step (s, [])
            (take n (send_gripper_command_steps action post_raises)))) = teleop_locked s)"
proof -
  let ?steps = "send_gripper_command_steps action post_raises"
  let ?pre = "[Effect (Sleep (3 / 10)), Effect (Http_post (gripper_payload action))]
       @ (if post_raises then [Effect Log_error] else [])"
  have path: "\<exists>pre. ?steps =
        pre @ [Effect (Sleep 1), Clear_last_sent_coords, Effect EnableRobot_call, Release_lock]
      \<and> Clear_last_sent_coords \<notin> set pre \<and> Effect EnableRobot_call \<notin> set pre
      \<and> Release_lock \<notin> set pre"
    by (rule exI [of _ ?pre]) (simp add: send_gripper_command_steps_def)
  have final: "fst (send_gripper_command action post_raises s)
       = s\<lparr>last_sent_coords := None, teleop_locked := False\<rparr>"
    by (simp add: send_gripper_command_def send_gripper_command_steps_def)
  have effects: "snd (send_gripper_command action post_raises s)
       = [Sleep (3 / 10), Http_post (gripper_payload action)]
         @ (if post_raises then [Log_error] else []) @ [Sleep 1, EnableRobot_call]"
    by (simp add: send_gripper_command_def send_gripper_command_steps_def)
  have held: "teleop_locked (fst (foldl exec_step (s, []) (take n ?steps))) = teleop_locked s"
    if "n < length ?steps" for n
  proof -
    have "take n ?steps = take n (butlast ?steps)"
      using that by (simp add: take_butlast)
    moreover have "Release_lock \<notin> set (butlast ?steps)"
      by (simp add: send_gripper_command_steps_def butlast_append)
    then have "Release_lock \<notin> set (take n (butlast ?steps))"
      by (meson in_set_takeD)
    ultimately show ?thesis
      by (simp add: foldl_exec_step_keeps_lock)
  qed
  from path final effects held show ?thesis by blast
qed

text \<open>A closing actuation whose HTTP request raises, started on a locked session with
  a target already sent: still locked after six of its seven steps, unlocked and
  without a last sent target at the end.\<close>

theorem gripper_sequence_completes_witness:
  "teleop_locked locked_node
   \<and> last_sent_coords locked_node = Some (-300, 0, 300)
   \<and> (6::nat) < length (send_gripper_command_steps ''close'' True)
   \<and> teleop_locked (fst (foldl exec_step (locked_node, [])
        (take 6 (send_gripper_command_steps ''close'' True))))
   \<and> \<not> teleop_locked (fst (send_gripper_command ''close'' True locked_node))
   \<and> last_sent_coords (fst (send_gripper_command ''close'' True locked_node)) = None
   \<and> snd (send_gripper_command ''close'' True locked_node)
      = [Sleep (3 / 10), Http_post [1, 6, 1, 3, 0, 0, 120, 54], Log_error, Sleep 1,
         EnableRobot_call]"
  using gripper_sequence_completes [of "''close''" True locked_node]
  by (simp add: locked_node_def trigger_gripper_def send_gripper_command_steps_def
      gripper_payload_def session_node_def init_node_def)

section \<open>Connection handshake\<close>

text \<open>What one event does to the world: the six transitions of the handshake.\<close>

lemma handshake_step_cases:
  assumes "handshake_step e w = Some w'"
  obtains
    (clear_ok) "e = ClearError_done 0" "0 < pending_clear w"
      "nd w' = nd w" "timers w' = timers w" "pending_enable w' = Suc (pending_enable w)"
      "pending_clear w' = pending_clear w - 1"
      "trace w' = trace w @ [Ev e, Eff EnableRobot_call]"
  | (clear_fail) res where "e = ClearError_done res" "res \<noteq> 0" "0 < pending_clear w"
      "nd w' = nd w" "timers w' = timers w @ [(1, Async_clear_error)]"
      "pending_enable w' = pending_enable w" "pending_clear w' = pending_clear w - 1"
      "trace w' = trace w @ [Ev e, Eff (Create_timer 1 Async_clear_error)]"
  | (enable_ok) "e = EnableRobot_done 0" "0 < pending_enable w"
      "nd w' = (nd w)\<lparr>robot_enabled := True\<rparr>" "timers w' = timers w"
      "pending_enable w' = pending_enable w - 1" "pending_clear w' = pending_clear w"
      "trace w' = trace w @ [Ev e, Eff (Log_info ''Robot Enabled.'')]"
  | (enable_fail) res where "e = EnableRobot_done res" "res \<noteq> 0" "0 < pending_enable w"
      "nd w' = nd w" "timers w' = timers w @ [(1, Async_enable_robot)]"
      "pending_enable w' = pending_enable w - 1" "pending_clear w' = pending_clear w"
      "trace w' = trace w @ [Ev e, Eff (Create_timer 1 Async_enable_robot)]"
  | (timer_clear) i where "e = Timer_fired i" "i < length (timers w)"
      "snd (timers w ! i) = Async_clear_error"
      "nd w' = nd w" "timers w' = timers w"
      "pending_enable w' = pending_enable w" "pending_clear w' = Suc (pending_clear w)"
      "trace w' = trace w @ [Ev e, Eff ClearError_call]"
  | (timer_enable) i where "e = Timer_fired i" "i < length (timers w)"
      "snd (timers w ! i) = Async_enable_robot"
      "nd w' = nd w" "timers w' = timers w"
      "pending_enable w' = Suc (pending_enable w)" "pending_clear w' = pending_clear w"
      "trace w' = trace w @ [Ev e, Eff EnableRobot_call]"
proof (cases e)
  case (ClearError_done res)
  show ?thesis
  proof (cases "res = 0")
    case True
    with ClearError_done assms show ?thesis
      by (intro clear_ok)
        (auto simp: handshake_step_def clear_cb_def emit_def async_enable_robot_def
          split: if_splits)
  next
    case False
    with ClearError_done assms show ?thesis
      by (intro clear_fail [of res])
        (auto simp: handshake_step_def clear_cb_def emit_def split: if_splits)
  qed
next
  case (EnableRobot_done res)
  show ?thesis
  proof (cases "res = 0")
    case True
    with EnableRobot_done assms show ?thesis
      by (intro enable_ok)
        (auto simp: handshake_step_def enable_cb_def emit_def split: if_splits)
  next
    case False
    with EnableRobot_done assms show ?thesis
      by (intro enable_fail [of res])
        (auto simp: handshake_step_def enable_cb_def emit_def split: if_splits)
  qed
next
  case (Timer_fired i)
  show ?thesis
  proof (cases "snd (timers w ! i)")
    case Async_clear_error
    with Timer_fired assms show ?thesis
      by (intro timer_clear [of i])
        (auto simp: handshake_step_def run_timer_callback_def emit_def async_clear_error_def
          split: if_splits)
  next
    case Async_enable_robot
    with Timer_fired assms show ?thesis
      by (intro timer_enable [of i])
        (auto simp: handshake_step_def run_timer_callback_def emit_def async_enable_robot_def
          split: if_splits)
  qed
qed

lemma enable_follows_clear_snoc:
  assumes "enable_follows_clear tr" "y = Eff EnableRobot_call \<longrightarrow> Ev (ClearError_done 0) \<in> set tr"
  shows "enable_follows_clear (tr @ [y])"
proof (intro allI impI)
  fix pre post
  assume eq: "tr @ [y] = pre @ Eff EnableRobot_call # post"
  show "Ev (ClearError_done 0) \<in> set pre"
  proof (cases post rule: rev_cases)
    case Nil
    with eq have "tr = pre" "y = Eff EnableRobot_call" by auto
    with assms(2) show ?thesis by simp
  next
    case (snoc post' z)
    with eq have "tr = pre @ Eff EnableRobot_call # post'" by auto
    with assms(1) show ?thesis by blast
  qed
qed

lemma handshake_inv_step:
  assumes "handshake_inv w" "handshake_step e w = Some w'"
  shows "handshake_inv w'"
  using assms(2)
proof (cases rule: handshake_step_cases)
  case clear_ok
  have "enable_follows_clear ((trace w @ [Ev e]) @ [Eff EnableRobot_call])"
    using assms(1) clear_ok(1) by (intro enable_follows_clear_snoc) auto
  with assms(1) clear_ok show ?thesis by auto
next
  case (clear_fail res)
  have "enable_follows_clear ((trace w @ [Ev e]) @ [Eff (Create_timer 1 Async_clear_error)])"
    using assms(1) by (intro enable_follows_clear_snoc) auto
  with assms(1) clear_fail show ?thesis by auto
next
  case enable_ok
  have "enable_follows_clear ((trace w @ [Ev e]) @ [Eff (Log_info ''Robot Enabled.'')])"
    using assms(1) by (intro enable_follows_clear_snoc) auto
  with assms(1) enable_ok show ?thesis by auto
next
  case (enable_fail res)
  have "enable_follows_clear ((trace w @ [Ev e]) @ [Eff (Create_timer 1 Async_enable_robot)])"
    using assms(1) by (intro enable_follows_clear_snoc) auto
  with assms(1) enable_fail show ?thesis by auto
next
  case (timer_clear i)
  have "enable_follows_clear ((trace w @ [Ev e]) @ [Eff ClearError_call])"
    using assms(1) by (intro enable_follows_clear_snoc) auto
  with assms(1) timer_clear show ?thesis by auto
next
  case (timer_enable i)
  have "Async_enable_robot \<in> snd ` set (timers w)"
    using timer_enable(2,3) by (metis image_eqI nth_mem)
  then have c: "Ev (ClearError_done 0) \<in> set (trace w)"
    using assms(1) by blast
  then have "enable_follows_clear ((trace w @ [Ev e]) @ [Eff EnableRobot_call])"
    using assms(1) by (intro enable_follows_clear_snoc) auto
  with assms(1) timer_enable c show ?thesis by auto
qed

lemma handshake_inv_run:
  "handshake_inv w \<Longrightarrow> handshake_run es w = Some w' \<Longrightarrow> handshake_inv w'"
proof (induction es arbitrary: w)
  case Nil
  then show ?case by simp
next
  case (Cons e es)
  from Cons.prems(2) obtain w1 where s: "handshake_step e w = Some w1"
    and r: "handshake_run es w1 = Some w'"
    by (auto split: option.splits)
  from Cons.prems(1) s have "handshake_inv w1" by (rule handshake_inv_step)
  then show ?case using r by (rule Cons.IH)
qed

lemma handshake_inv_start: "handshake_inv start_world"
proof -
  have "enable_follows_clear ([] @ [Eff ClearError_call])"
    by (intro enable_follows_clear_snoc) auto
  then show ?thesis
    by (simp add: start_world_def emit_def async_clear_error_def init_node_def)
qed


lemmas handshake_eval = handshake_step_def clear_cb_def enable_cb_def emit_def
  run_timer_callback_def async_clear_error_def async_enable_robot_def start_world_def

text \<open>
  Claim C8. In the handshake an enable request is issued only after a clear-error
  attempt has returned success, and the node becomes enabled only when an enable
  attempt returns success: in every run of the event loop from the start, each
  EnableRobot call of the trace has a successful ClearError response before it, an
  enabled node has a successful EnableRobot response in its trace, and every timer
  was created with a period of one second. When clear-error fails twice and then
  succeeds, the first enable request follows the third clear-error attempt (the third
  attempt comes from the first timer firing again or from the second timer); when
  enable fails once and then succeeds, the node is not enabled after the first attempt
  and enabled after the second. Every retry is the callback of a one-second timer.
\<close>

theorem handshake_order:
  assumes "handshake_run es start_world = Some w" "c1 \<noteq> 0" "c2 \<noteq> 0" "e1 \<noteq> 0"
  shows "(\<forall>pre post. trace w = pre @ Eff EnableRobot_call # post
            \<longrightarrow> Ev (ClearError_done 0) \<in> set pre)
    \<and> (robot_enabled (nd w) \<longrightarrow> Ev (EnableRobot_done 0) \<in> set (trace w))
    \<and> (\<forall>t \<in> set (timers w). fst t = 1)
    \<and> (\<exists>w3. handshake_run
            [ClearError_done c1, Timer_fired 0, ClearError_done c2, Timer_fired 0,
             ClearError_done 0] start_world = Some w3
          \<and> trace w3 =
            [Eff ClearError_call,
             Ev (ClearError_done c1), Eff (Create_timer 1 Async_clear_error),
             Ev (Timer_fired 0), Eff ClearError_call,
             Ev (ClearError_done c2), Eff (Create_timer 1 Async_clear_error),
             Ev (Timer_fired 0), Eff ClearError_call,
             Ev (ClearError_done 0), Eff EnableRobot_call]
          \<and> \<not> robot_enabled (nd w3))
    \<and> (\<exists>w3. handshake_run
            [ClearError_done c1, Timer_fired 0, ClearError_done c2, Timer_fired 1,
             ClearError_done 0] start_world = Some w3
          \<and> trace w3 =
            [Eff ClearError_call,
             Ev (ClearError_done c1), Eff (Create_timer 1 Async_clear_error),
             Ev (Timer_fired 0), Eff ClearError_call,
             Ev (ClearError_done c2), Eff (Create_timer 1 Async_clear_error),
             Ev (Timer_fired 1), Eff ClearError_call,
             Ev (ClearError_done 0), Eff EnableRobot_call]
          \<and> \<not> robot_enabled (nd w3))
    \<and> (\<exists>w1. handshake_run [ClearError_done 0, EnableRobot_done e1] start_world = Some w1
          \<and> \<not> robot_enabled (nd w1))
    \<and> (\<exists>w2. handshake_run
            [ClearError_done 0, EnableRobot_done e1, Timer_fired 0, EnableRobot_done 0]
            start_world = Some w2
          \<and> trace w2 =
            [Eff ClearError_call,
             Ev (ClearError_done 0), Eff EnableRobot_call,
             Ev (EnableRobot_done e1), Eff (Create_timer 1 Async_enable_robot),
             Ev (Timer_fired 0), Eff EnableRobot_call,
             Ev (EnableRobot_done 0), Eff (Log_info ''Robot Enabled.'')]
          \<and> robot_enabled (nd w2))"
proof -
  have inv: "handshake_inv w"
    using handshake_inv_start assms(1) by (rule handshake_inv_run)
  have clear_run: "\<exists>w3. handshake_run
            [ClearError_done c1, Timer_fired 0, ClearError_done c2, Timer_fired 0,
             ClearError_done 0] start_world = Some w3
          \<and> trace w3 =
            [Eff ClearError_call,
             Ev (ClearError_done c1), Eff (Create_timer 1 Async_clear_error),
             Ev (Timer_fired 0), Eff ClearError_call,
             Ev (ClearError_done c2), Eff (Create_timer 1 Async_clear_error),
             Ev (Timer_fired 0), Eff ClearError_call,
             Ev (ClearError_done 0), Eff EnableRobot_call]
          \<and> \<not> robot_enabled (nd w3)"
    using assms(2,3) by (simp add: handshake_eval init_node_def)
  have clear_run': "\<exists>w3. handshake_run
            [ClearError_done c1, Timer_fired 0, ClearError_done c2, Timer_fired 1,
             ClearError_done 0] start_world = Some w3
          \<and> trace w3 =
            [Eff ClearError_call,
             Ev (ClearError_done c1), Eff (Create_timer 1 Async_clear_error),
             Ev (Timer_fired 0), Eff ClearError_call,
             Ev (ClearError_done c2), Eff (Create_timer 1 Async_clear_error),
             Ev (Timer_fired 1), Eff ClearError_call,
             Ev (ClearError_done 0), Eff EnableRobot_call]
          \<and> \<not> robot_enabled (nd w3)"
    using assms(2,3) by (simp add: handshake_eval init_node_def)
  have enable_fail: "\<exists>w1. handshake_run [ClearError_done 0, EnableRobot_done e1] start_world
          = Some w1 \<and> \<not> robot_enabled (nd w1)"
    using assms(4) by (simp add: handshake_eval init_node_def)
  have enable_run: "\<exists>w2. handshake_run
            [ClearError_done 0, EnableRobot_done e1, Timer_fired 0, EnableRobot_done 0]
            start_world = Some w2
          \<and> trace w2 =
            [Eff ClearError_call,
             Ev (ClearError_done 0), Eff EnableRobot_call,
             Ev (EnableRobot_done e1), Eff (Create_timer 1 Async_enable_robot),
             Ev (Timer_fired 0), Eff EnableRobot_call,
             Ev (EnableRobot_done 0), Eff (Log_info ''Robot Enabled.'')]
          \<and> robot_enabled (nd w2)"
    using assms(4) by (simp add: handshake_eval init_node_def)
  from inv clear_run clear_run' enable_fail enable_run show ?thesis by blast
qed

text \<open>The whole handshake in one run: clear-error fails twice and succeeds at the
  third attempt, enable fails once and succeeds at the second.\<close>

theorem handshake_order_witness:
  "handshake_run
      [ClearError_done 1, Timer_fired 0, ClearError_done 1, Timer_fired 0, ClearError_done 0,
       EnableRobot_done 1, Timer_fired 2, EnableRobot_done 0] start_world \<noteq> None
   \<and> robot_enabled (nd (the (handshake_run
      [ClearError_done 1, Timer_fired 0, ClearError_done 1, Timer_fired 0, ClearError_done 0,
       EnableRobot_done 1, Timer_fired 2, EnableRobot_done 0] start_world)))
   \<and> trace (the (handshake_run
      [ClearError_done 1, Timer_fired 0, ClearError_done 1, Timer_fired 0, ClearError_done 0,
       EnableRobot_done 1, Timer_fired 2, EnableRobot_done 0] start_world))
      = [Eff ClearError_call,
         Ev (ClearError_done 1), Eff (Create_timer 1 Async_clear_error),
         Ev (Timer_fired 0), Eff ClearError_call,
         Ev (ClearError_done 1), Eff (Create_timer 1 Async_clear_error),
         Ev (Timer_fired 0), Eff ClearError_call,
         Ev (ClearError_done 0), Eff EnableRobot_call,
         Ev (EnableRobot_done 1), Eff (Create_timer 1 Async_enable_robot),
         Ev (Timer_fired 2), Eff EnableRobot_call,
         Ev (EnableRobot_done 0), Eff (Log_info ''Robot Enabled.'')]
   \<and> timers (the (handshake_run
      [ClearError_done 1, Timer_fired 0, ClearError_done 1, Timer_fired 0, ClearError_done 0,
       EnableRobot_done 1, Timer_fired 2, EnableRobot_done 0] start_world))
      = [(1, Async_clear_error), (1, Async_clear_error), (1, Async_enable_robot)]
   \<and> (1::int) \<noteq> 0"
  using handshake_order [of
      "[ClearError_done 1, Timer_fired 0, ClearError_done 1, Timer_fired 0, ClearError_done 0,
        EnableRobot_done 1, Timer_fired 2, EnableRobot_done 0]"
      "the (handshake_run
        [ClearError_done 1, Timer_fired 0, ClearError_done 1, Timer_fired 0, ClearError_done 0,
         EnableRobot_done 1, Timer_fired 2, EnableRobot_done 0] start_world)" 1 1 1]
  by (simp add: handshake_eval init_node_def)

end
